theory Spec2Isabelle
  imports Main "HOL-Library.Sublist"
begin

section \<open>The GardenerCluster resource of api/v1\<close>

text \<open>
  The Go structs become records. Two fields are renamed because record fields share one
  name space: \<open>Shoot.Name\<close> is \<open>ShootName\<close>, the fields of \<open>Secret\<close> are
  \<open>SecretName\<close>, \<open>SecretNamespace\<close>, \<open>SecretKey\<close>, and the \<open>Status\<close> field of
  \<open>metav1.Condition\<close> is \<open>CondStatus\<close> (the cluster keeps \<open>Status\<close>).
  The embedded \<open>metav1.ObjectMeta\<close> is a type parameter: the operations never look
  inside it.
\<close>

record TypeMeta =
  Kind :: string
  APIVersion :: string

record Shoot =
  ShootName :: string

record Secret =
  SecretName :: string
  SecretNamespace :: string
  SecretKey :: string

record Kubeconfig =
  Secret :: Secret

record GardenerClusterSpec =
  Kubeconfig :: Kubeconfig
  Shoot :: Shoot

type_synonym State = string

definition ReadyState :: State where
  "ReadyState = ''Ready''"

definition ErrorState :: State where
  "ErrorState = ''Error''"

type_synonym ConditionReason = string

definition ConditionReasonKubeconfigSecretCreated :: ConditionReason where
  "ConditionReasonKubeconfigSecretCreated = ''KubeconfigSecretCreated''"

definition ConditionReasonKubeconfigSecretRotated :: ConditionReason where
  "ConditionReasonKubeconfigSecretRotated = ''KubeconfigSecretRotated''"

definition ConditionReasonFailedToGetSecret :: ConditionReason where
  "ConditionReasonFailedToGetSecret = ''FailedToCheckSecret''"

definition ConditionReasonFailedToCreateSecret :: ConditionReason where
  "ConditionReasonFailedToCreateSecret = ''ConditionReasonFailedToCreateSecret''"

definition ConditionReasonFailedToUpdateSecret :: ConditionReason where
  "ConditionReasonFailedToUpdateSecret = ''FailedToUpdateSecret''"

definition ConditionReasonFailedToGetKubeconfig :: ConditionReason where
  "ConditionReasonFailedToGetKubeconfig = ''FailedToGetKubeconfig''"

type_synonym ConditionType = string

definition ConditionTypeKubeconfigManagement :: ConditionType where
  "ConditionTypeKubeconfigManagement = ''KubeconfigManagement''"

text \<open>
  \<open>metav1.ConditionStatus\<close> is a string type too (\<open>True\<close>, \<open>False\<close>, \<open>Unknown\<close>).
  A \<open>metav1.Time\<close> is an instant, written as its offset from Go's zero instant, so that
  \<open>IsZero\<close> is the test for offset 0. \<open>ObservedGeneration\<close> is an int64 that the
  operations only copy and compare.
\<close>

type_synonym ConditionStatus = string

type_synonym Time = int

definition IsZero :: "Time \<Rightarrow> bool" where
  "IsZero t = (t = 0)"

record Condition =
  Type :: string
  CondStatus :: ConditionStatus
  ObservedGeneration :: int
  LastTransitionTime :: Time
  Reason :: string
  Message :: string

record GardenerClusterStatus =
  State :: State
  Conditions :: "Condition list"

record 'meta GardenerCluster =
  TypeMeta :: TypeMeta
  ObjectMeta :: 'meta
  Spec :: GardenerClusterSpec
  Status :: GardenerClusterStatus

section \<open>The condition helpers of k8s.io/apimachinery/pkg/api/meta\<close>

text \<open>
  Modelled from the spec: \<open>meta.FindStatusCondition\<close>, \<open>meta.RemoveStatusCondition\<close>
  and \<open>meta.SetStatusCondition\<close> belong to the imported apimachinery module and are not
  part of the repository's sources. The spec says of them that the operation "removes any
  existing entry of conditionType, and inserts the new entry"; the definitions below follow
  the library's documented contract, which is finer than that sentence:
  \<^item> \<open>FindStatusCondition\<close> returns a pointer to the first entry of the given type, here
    its index in the slice;
  \<^item> \<open>RemoveStatusCondition\<close> returns at once on an empty slice and otherwise keeps, in
    order, the entries of every other type;
  \<^item> \<open>SetStatusCondition\<close> appends the new condition when no entry of its type exists
    (reading the clock only if the new condition carries the zero time), and otherwise
    updates the entry found in place: status and transition time only when the status
    differs, then reason, message and observed generation.
  The clock reading that \<open>SetStatusCondition\<close> may take is its first argument.
\<close>

fun FindStatusCondition :: "Condition list \<Rightarrow> string \<Rightarrow> nat option" where
  "FindStatusCondition [] conditionType = None"
| "FindStatusCondition (c # cs) conditionType =
     (if Type c = conditionType then Some 0
      else map_option Suc (FindStatusCondition cs conditionType))"

definition RemoveStatusCondition :: "Condition list \<Rightarrow> string \<Rightarrow> Condition list" where
  "RemoveStatusCondition conditions conditionType =
     (if length conditions = 0 then conditions
      else filter (\<lambda>condition. Type condition \<noteq> conditionType) conditions)"

definition updateExisting :: "Time \<Rightarrow> Condition \<Rightarrow> Condition \<Rightarrow> Condition" where
  "updateExisting sysnow existingCondition newCondition =
     (let e1 =
        (if CondStatus existingCondition \<noteq> CondStatus newCondition
         then existingCondition
                \<lparr>CondStatus := CondStatus newCondition,
                 LastTransitionTime :=
                   (if \<not> IsZero (LastTransitionTime newCondition)
                    then LastTransitionTime newCondition else sysnow)\<rparr>
         else existingCondition)
      in e1\<lparr>Reason := Reason newCondition,
            Message := Message newCondition,
            ObservedGeneration := ObservedGeneration newCondition\<rparr>)"

definition SetStatusCondition ::
  "Time \<Rightarrow> Condition list \<Rightarrow> Condition \<Rightarrow> Condition list" where
  "SetStatusCondition sysnow conditions newCondition =
     (case FindStatusCondition conditions (Type newCondition) of
        None \<Rightarrow>
          conditions @
            [if IsZero (LastTransitionTime newCondition)
             then newCondition\<lparr>LastTransitionTime := sysnow\<rparr>
             else newCondition]
      | Some i \<Rightarrow>
          conditions[i := updateExisting sysnow (conditions ! i) newCondition])"

section \<open>The condition model\<close>

text \<open>
  \<open>getMessage\<close> is the switch of the source, case by case in its order, with the
  constants as the case labels.
\<close>

definition getMessage :: "ConditionReason \<Rightarrow> string" where
  "getMessage reason =
     (if reason = ConditionReasonKubeconfigSecretCreated then ''Secret created successfully.''
      else if reason = ConditionReasonKubeconfigSecretRotated then ''Secret rotated successfully.''
      else if reason = ConditionReasonFailedToCreateSecret then ''Failed to create secret.''
      else if reason = ConditionReasonFailedToUpdateSecret then ''Failed to rotate secret.''
      else if reason = ConditionReasonFailedToGetSecret then ''Failed to get secret.''
      else if reason = ConditionReasonFailedToGetKubeconfig then ''Failed to get kubeconfig.''
      else ''Unknown condition'')"

text \<open>
  Both operations mutate the cluster behind a pointer receiver; the model takes the
  cluster and returns it updated (a nil receiver is outside the model). \<open>now\<close> is the
  reading of \<open>metav1.Now()\<close> in the operation, \<open>sysnow\<close> the reading
  \<open>SetStatusCondition\<close> may take.
\<close>

definition UpdateConditionForReadyState ::
  "'meta GardenerCluster \<Rightarrow> Time \<Rightarrow> Time \<Rightarrow> ConditionType \<Rightarrow> ConditionReason \<Rightarrow>
   ConditionStatus \<Rightarrow> 'meta GardenerCluster" where
  "UpdateConditionForReadyState cluster now sysnow conditionType reason conditionStatus =
     (let cluster1 = cluster\<lparr>Status := (Status cluster)\<lparr>State := ReadyState\<rparr>\<rparr>;
          condition =
            \<lparr>Type = conditionType,
             CondStatus = conditionStatus,
             ObservedGeneration = 0,
             LastTransitionTime = now,
             Reason = reason,
             Message = getMessage reason\<rparr>;
          cluster2 = cluster1\<lparr>Status := (Status cluster1)
            \<lparr>Conditions := RemoveStatusCondition (Conditions (Status cluster1)) (Type condition)\<rparr>\<rparr>
      in cluster2\<lparr>Status := (Status cluster2)
            \<lparr>Conditions := SetStatusCondition sysnow (Conditions (Status cluster2)) condition\<rparr>\<rparr>)"

text \<open>
  The error argument is a value of Go's \<open>error\<close> interface, and the operation calls its
  \<open>Error()\<close> method dynamically. The value is nil, or it holds a dynamic value whose
  method returns a text, or it holds one whose method panics (a typed nil pointer whose
  method reads its receiver panics with a nil dereference; any other method may panic with
  a value of its own). \<open>Error\<close> is the method call: on the nil interface it is a nil
  dereference. The state assignment of the line before has already happened when the call
  panics, so the panic carries the cluster as the panic leaves it.
\<close>

datatype panic = NilPointerDereference | PanicValue string

datatype error = NilError | ErrorReturns string | ErrorPanics panic

fun Error :: "error \<Rightarrow> panic + string" where
  "Error NilError = Inl NilPointerDereference"
| "Error (ErrorPanics p) = Inl p"
| "Error (ErrorReturns text) = Inr text"

definition UpdateConditionForErrorState ::
  "'meta GardenerCluster \<Rightarrow> Time \<Rightarrow> Time \<Rightarrow> ConditionType \<Rightarrow> ConditionReason \<Rightarrow>
   ConditionStatus \<Rightarrow> error \<Rightarrow>
   (panic \<times> 'meta GardenerCluster) + 'meta GardenerCluster" where
  "UpdateConditionForErrorState cluster now sysnow conditionType reason conditionStatus err =
     (let cluster1 = cluster\<lparr>Status := (Status cluster)\<lparr>State := ErrorState\<rparr>\<rparr>
      in case Error err of
           Inl p \<Rightarrow> Inl (p, cluster1)
         | Inr text \<Rightarrow>
             (let condition =
                    \<lparr>Type = conditionType,
                     CondStatus = conditionStatus,
                     ObservedGeneration = 0,
                     LastTransitionTime = now,
                     Reason = reason,
                     Message = getMessage reason @ '' Error: '' @ text\<rparr>;
                  cluster2 = cluster1\<lparr>Status := (Status cluster1)
                    \<lparr>Conditions :=
                       RemoveStatusCondition (Conditions (Status cluster1)) (Type condition)\<rparr>\<rparr>
              in Inr (cluster2\<lparr>Status := (Status cluster2)
                    \<lparr>Conditions :=
                       SetStatusCondition sysnow (Conditions (Status cluster2)) condition\<rparr>\<rparr>)))"


section \<open>Observing a cluster and sequences of calls\<close>

text \<open>
  The cluster object as a call leaves it, whether the call returned or panicked: a caller
  that recovers from the panic sees the same object.
\<close>

definition clusterAfter ::
  "(panic \<times> 'meta GardenerCluster) + 'meta GardenerCluster \<Rightarrow> 'meta GardenerCluster" where
  "clusterAfter outcome =
     (case outcome of Inl (p, cluster) \<Rightarrow> cluster | Inr cluster \<Rightarrow> cluster)"

text \<open>
  A call of one of the two operations with its arguments and its clock readings, and a
  finite sequence of such calls on one cluster object. \<open>returns\<close> tells the calls that
  come back normally from those that panic in the \<open>Error()\<close> call.
\<close>

datatype call =
  ReadyCall Time Time ConditionType ConditionReason ConditionStatus
| ErrorCall Time Time ConditionType ConditionReason ConditionStatus error

fun applyCall :: "'meta GardenerCluster \<Rightarrow> call \<Rightarrow> 'meta GardenerCluster" where
  "applyCall cluster (ReadyCall now sysnow t r s) =
     UpdateConditionForReadyState cluster now sysnow t r s"
| "applyCall cluster (ErrorCall now sysnow t r s err) =
     clusterAfter (UpdateConditionForErrorState cluster now sysnow t r s err)"

definition runCalls :: "'meta GardenerCluster \<Rightarrow> call list \<Rightarrow> 'meta GardenerCluster" where
  "runCalls cluster calls = foldl applyCall cluster calls"

fun callType :: "call \<Rightarrow> ConditionType" where
  "callType (ReadyCall now sysnow t r s) = t"
| "callType (ErrorCall now sysnow t r s err) = t"

fun returns :: "call \<Rightarrow> bool" where
  "returns (ReadyCall now sysnow t r s) = True"
| "returns (ErrorCall now sysnow t r s err) = (\<not> isl (Error err))"

text \<open>
  The number of entries of a type in a condition list, and the entry a reader gets for a
  type through \<open>FindStatusCondition\<close>.
\<close>

definition countType :: "string \<Rightarrow> Condition list \<Rightarrow> nat" where
  "countType t conditions = length (filter (\<lambda>c. Type c = t) conditions)"

definition lookupCondition :: "Condition list \<Rightarrow> string \<Rightarrow> Condition option" where
  "lookupCondition conditions t =
     (case FindStatusCondition conditions t of
        None \<Rightarrow> None
      | Some i \<Rightarrow> Some (conditions ! i))"

text \<open>
  What the append branch of \<open>SetStatusCondition\<close> stores for a new condition.
\<close>

definition stamped :: "Time \<Rightarrow> Condition \<Rightarrow> Condition" where
  "stamped sysnow c =
     (if IsZero (LastTransitionTime c) then c\<lparr>LastTransitionTime := sysnow\<rparr> else c)"

text \<open>
  The reasons a successful reconcile reports, the reading of the management condition,
  and the calls of a caller that reports Ready only with the management type and a
  success reason.
\<close>

definition successReason :: "ConditionReason \<Rightarrow> bool" where
  "successReason reason =
     (reason = ConditionReasonKubeconfigSecretCreated \<or>
      reason = ConditionReasonKubeconfigSecretRotated)"

definition readyReported :: "'meta GardenerCluster \<Rightarrow> bool" where
  "readyReported cluster =
     (case lookupCondition (Conditions (Status cluster)) ConditionTypeKubeconfigManagement of
        None \<Rightarrow> False
      | Some condition \<Rightarrow> successReason (Reason condition))"

fun disciplined :: "call \<Rightarrow> bool" where
  "disciplined (ReadyCall now sysnow t r s) =
     (t = ConditionTypeKubeconfigManagement \<and> successReason r)"
| "disciplined (ErrorCall now sysnow t r s err) = True"

text \<open>Concrete clusters and conditions for the evaluated examples.\<close>

definition exampleCluster :: "unit GardenerCluster" where
  "exampleCluster =
     \<lparr>TypeMeta = \<lparr>Kind = ''GardenerCluster'',
                  APIVersion = ''infrastructuremanager.kyma-project.io/v1''\<rparr>,
      ObjectMeta = (),
      Spec = \<lparr>Kubeconfig = \<lparr>Secret = \<lparr>SecretName = ''kubeconfig-shoot'',
                                       SecretNamespace = ''kcp-system'',
                                       SecretKey = ''config''\<rparr>\<rparr>,
              Shoot = \<lparr>ShootName = ''shoot''\<rparr>\<rparr>,
      Status = \<lparr>State = [], Conditions = []\<rparr>\<rparr>"

definition withStatus :: "State \<Rightarrow> Condition list \<Rightarrow> unit GardenerCluster" where
  "withStatus state conditions =
     exampleCluster\<lparr>Status := \<lparr>State = state, Conditions = conditions\<rparr>\<rparr>"

definition exampleCondition ::
  "string \<Rightarrow> ConditionStatus \<Rightarrow> Time \<Rightarrow> ConditionReason \<Rightarrow> Condition" where
  "exampleCondition t s time reason =
     \<lparr>Type = t, CondStatus = s, ObservedGeneration = 0, LastTransitionTime = time,
      Reason = reason, Message = getMessage reason\<rparr>"

section \<open>What one call does to the condition list\<close>

lemmas reason_defs =
  ConditionReasonKubeconfigSecretCreated_def ConditionReasonKubeconfigSecretRotated_def
  ConditionReasonFailedToGetSecret_def ConditionReasonFailedToCreateSecret_def
  ConditionReasonFailedToUpdateSecret_def ConditionReasonFailedToGetKubeconfig_def

lemmas model_defs =
  UpdateConditionForReadyState_def UpdateConditionForErrorState_def
  SetStatusCondition_def RemoveStatusCondition_def updateExisting_def IsZero_def
  getMessage_def clusterAfter_def runCalls_def countType_def lookupCondition_def
  exampleCluster_def withStatus_def exampleCondition_def
  ReadyState_def ErrorState_def reason_defs
  ConditionTypeKubeconfigManagement_def successReason_def readyReported_def

lemma Find_None_iff: "FindStatusCondition cs t = None \<longleftrightarrow> t \<notin> Type ` set cs"
  by (induction cs) auto

lemma Remove_filter: "RemoveStatusCondition cs t = filter (\<lambda>c. Type c \<noteq> t) cs"
  by (simp add: RemoveStatusCondition_def)

lemma Find_filter: "FindStatusCondition (filter (\<lambda>c. Type c \<noteq> t) cs) t = None"
  by (auto simp add: Find_None_iff)

lemma Find_Remove: "FindStatusCondition (RemoveStatusCondition cs t) t = None"
  by (simp add: Remove_filter Find_filter)

lemma Set_after_Remove:
  "Type c = t \<Longrightarrow>
   SetStatusCondition sysnow (RemoveStatusCondition cs t) c =
     filter (\<lambda>c. Type c \<noteq> t) cs @ [stamped sysnow c]"
  using Find_Remove [of cs t]
  by (simp add: SetStatusCondition_def stamped_def Remove_filter)

lemma stamped_fields:
  "Type (stamped sysnow c) = Type c"
  "CondStatus (stamped sysnow c) = CondStatus c"
  "Reason (stamped sysnow c) = Reason c"
  "Message (stamped sysnow c) = Message c"
  "ObservedGeneration (stamped sysnow c) = ObservedGeneration c"
  "LastTransitionTime (stamped sysnow c) =
     (if IsZero (LastTransitionTime c) then sysnow else LastTransitionTime c)"
  by (simp_all add: stamped_def)

lemma Ready_conditions:
  "Conditions (Status (UpdateConditionForReadyState cluster now sysnow t r s)) =
     filter (\<lambda>c. Type c \<noteq> t) (Conditions (Status cluster)) @
       [stamped sysnow \<lparr>Type = t, CondStatus = s, ObservedGeneration = 0,
          LastTransitionTime = now, Reason = r, Message = getMessage r\<rparr>]"
  by (simp add: UpdateConditionForReadyState_def Let_def Set_after_Remove)

lemma Error_conditions:
  "Conditions (Status (clusterAfter
      (UpdateConditionForErrorState cluster now sysnow t r s (ErrorReturns e)))) =
     filter (\<lambda>c. Type c \<noteq> t) (Conditions (Status cluster)) @
       [stamped sysnow \<lparr>Type = t, CondStatus = s, ObservedGeneration = 0,
          LastTransitionTime = now, Reason = r, Message = getMessage r @ '' Error: '' @ e\<rparr>]"
  by (simp add: UpdateConditionForErrorState_def clusterAfter_def Let_def Set_after_Remove)

lemma Error_panic_conditions:
  "isl (Error err) \<Longrightarrow>
   Conditions (Status (clusterAfter
      (UpdateConditionForErrorState cluster now sysnow t r s err))) =
     Conditions (Status cluster)"
  by (cases err) (simp_all add: UpdateConditionForErrorState_def clusterAfter_def Let_def)

lemma Ready_state:
  "State (Status (UpdateConditionForReadyState cluster now sysnow t r s)) = ReadyState"
  by (simp add: UpdateConditionForReadyState_def Let_def)

lemma Error_state:
  "State (Status (clusterAfter
      (UpdateConditionForErrorState cluster now sysnow t r s err))) = ErrorState"
  by (cases err) (simp_all add: UpdateConditionForErrorState_def clusterAfter_def Let_def)

lemma Error_returns:
  "UpdateConditionForErrorState cluster now sysnow t r s (ErrorReturns e) =
     Inr (clusterAfter (UpdateConditionForErrorState cluster now sysnow t r s (ErrorReturns e)))"
  by (simp add: UpdateConditionForErrorState_def clusterAfter_def Let_def)

lemma Find_append_new:
  "FindStatusCondition cs (Type c) = None \<Longrightarrow>
   FindStatusCondition (cs @ [c]) (Type c) = Some (length cs)"
  by (induction cs) (auto split: if_splits)

lemma lookup_written:
  assumes t: "Type c = t"
  shows "lookupCondition (filter (\<lambda>c. Type c \<noteq> t) cs @ [c]) t = Some c"
proof -
  have "FindStatusCondition (filter (\<lambda>c. Type c \<noteq> t) cs) (Type c) = None"
    using t Find_filter [of t cs] by simp
  from Find_append_new [OF this] show ?thesis
    using t by (simp add: lookupCondition_def)
qed

lemma filter_written:
  "Type c = t \<Longrightarrow> filter (\<lambda>c. Type c = t) (filter (\<lambda>c. Type c \<noteq> t) cs @ [c]) = [c]"
  by (induction cs) auto

lemma countType_written:
  "Type c = t \<Longrightarrow>
   countType t' (filter (\<lambda>c. Type c \<noteq> t) cs @ [c]) = (if t' = t then 1 else countType t' cs)"
  by (induction cs) (auto simp: countType_def)

lemma Ready_lookup:
  "lookupCondition
     (Conditions (Status (UpdateConditionForReadyState cluster now sysnow t r s))) t =
     Some (stamped sysnow \<lparr>Type = t, CondStatus = s, ObservedGeneration = 0,
          LastTransitionTime = now, Reason = r, Message = getMessage r\<rparr>)"
  by (simp add: Ready_conditions lookup_written stamped_fields)


lemma Ready_entries:
  "filter (\<lambda>c. Type c = t)
     (Conditions (Status (UpdateConditionForReadyState cluster now sysnow t r s))) =
     [stamped sysnow \<lparr>Type = t, CondStatus = s, ObservedGeneration = 0,
        LastTransitionTime = now, Reason = r, Message = getMessage r\<rparr>]"
  by (simp add: Ready_conditions filter_written stamped_fields del: filter_append)

lemma Error_entries:
  "filter (\<lambda>c. Type c = t)
     (Conditions (Status (clusterAfter
        (UpdateConditionForErrorState cluster now sysnow t r s (ErrorReturns e))))) =
     [stamped sysnow \<lparr>Type = t, CondStatus = s, ObservedGeneration = 0,
        LastTransitionTime = now, Reason = r, Message = getMessage r @ '' Error: '' @ e\<rparr>]"
  by (simp add: Error_conditions filter_written stamped_fields del: filter_append)

section \<open>Sequences of calls\<close>

lemma runCalls_snoc:
  "runCalls cluster (calls @ [call]) = applyCall (runCalls cluster calls) call"
  by (simp add: runCalls_def)

lemma countType_applyCall:
  "countType t' (Conditions (Status (applyCall cluster call))) =
     (if returns call \<and> t' = callType call then 1
      else countType t' (Conditions (Status cluster)))"
proof (cases call)
  case (ReadyCall now sysnow t r s)
  then show ?thesis
    by (simp add: Ready_conditions countType_written stamped_fields)
next
  case (ErrorCall now sysnow t r s err)
  then show ?thesis
    by (cases err)
       (simp_all add: Error_conditions Error_panic_conditions countType_written stamped_fields)
qed

lemma countType_runCalls_le:
  "countType t (Conditions (Status cluster)) \<le> 1 \<Longrightarrow>
   countType t (Conditions (Status (runCalls cluster calls))) \<le> 1"
proof (induction calls rule: rev_induct)
  case Nil
  then show ?case by (simp add: runCalls_def)
next
  case (snoc x xs)
  then show ?case by (simp add: runCalls_snoc countType_applyCall)
qed

lemma countType_runCalls_one:
  "call \<in> set calls \<Longrightarrow> returns call \<Longrightarrow>
   countType (callType call) (Conditions (Status (runCalls cluster calls))) = 1"
proof (induction calls rule: rev_induct)
  case Nil
  then show ?case by simp
next
  case (snoc x xs)
  show ?case
  proof (cases "returns x \<and> callType call = callType x")
    case True
    then show ?thesis by (simp add: runCalls_snoc countType_applyCall)
  next
    case False
    with snoc.prems have "call \<in> set xs" by auto
    with snoc have "countType (callType call) (Conditions (Status (runCalls cluster xs))) = 1"
      by simp
    with False show ?thesis by (auto simp add: runCalls_snoc countType_applyCall)
  qed
qed

lemma readyReported_applyCall:
  assumes "disciplined call" and "State (Status (applyCall cluster call)) = ReadyState"
  shows "readyReported (applyCall cluster call)"
proof (cases call)
  case (ReadyCall now sysnow t r s)
  with assms(1) show ?thesis
    by (simp add: readyReported_def Ready_lookup stamped_fields)
next
  case (ErrorCall now sysnow t r s err)
  with assms(2) show ?thesis
    by (simp add: Error_state ReadyState_def ErrorState_def)
qed


section \<open>The claims\<close>

text \<open>
  C1. The claim: every written condition stores as its reason the name from the closed set
  KubeconfigSecretCreated, KubeconfigSecretRotated, FailedToCreateSecret,
  FailedToUpdateSecret, FailedToGetSecret, FailedToGetKubeconfig, and in particular the
  constants for the failed-to-get-secret and failed-to-create-secret reasons have the
  values FailedToGetSecret and FailedToCreateSecret. The code evaluated: the two
  constants are the strings FailedToCheckSecret and ConditionReasonFailedToCreateSecret,
  and these are the reasons that \<open>UpdateConditionForErrorState\<close> stores when it is called
  with them.
\<close>

theorem failure_reason_constants_stored:
  "ConditionReasonFailedToGetSecret = ''FailedToCheckSecret'' \<and>
   ConditionReasonFailedToCreateSecret = ''ConditionReasonFailedToCreateSecret'' \<and>
   map Reason (Conditions (Status (clusterAfter
     (UpdateConditionForErrorState exampleCluster 1000 1001 ConditionTypeKubeconfigManagement
        ConditionReasonFailedToGetSecret ''False'' (ErrorReturns ''secrets not found''))))) =
     [''FailedToCheckSecret''] \<and>
   map Reason (Conditions (Status (clusterAfter
     (UpdateConditionForErrorState exampleCluster 1000 1001 ConditionTypeKubeconfigManagement
        ConditionReasonFailedToCreateSecret ''False'' (ErrorReturns ''forbidden''))))) =
     [''ConditionReasonFailedToCreateSecret'']"
  by (simp add: model_defs)

text \<open>
  C2, as amended. From an initial status whose condition list holds at most one entry per
  type, every finite sequence of calls of the two operations, with arbitrary arguments,
  leaves at most one entry per type. From any initial status, duplicates included, the list
  holds exactly one entry of the type of every call of the sequence that returned: a
  returning call removes all entries of its type and appends one. (A call of
  \<open>UpdateConditionForErrorState\<close> whose error is nil, or whose \<open>Error()\<close> panics, panics
  before it reaches the list.)
\<close>

theorem conditions_one_entry_per_type:
  "((\<forall>t. countType t (Conditions (Status cluster)) \<le> 1) \<longrightarrow>
      (\<forall>t. countType t (Conditions (Status (runCalls cluster calls))) \<le> 1)) \<and>
   (\<forall>call \<in> set calls. returns call \<longrightarrow>
      countType (callType call) (Conditions (Status (runCalls cluster calls))) = 1)"
  using countType_runCalls_le [of _ cluster calls] countType_runCalls_one [of _ calls cluster]
  by blast

text \<open>
  The theorem at a cluster that holds a management condition, after a failed and then a
  successful reconcile.
\<close>

theorem conditions_one_entry_per_type_witness:
  "(\<forall>t. countType t (Conditions (Status
      (withStatus ''Error''
         [exampleCondition ''KubeconfigManagement'' ''False'' 5 ''FailedToGetKubeconfig'']))) \<le> 1) \<and>
   ReadyCall 1000 1001 ''KubeconfigManagement'' ''KubeconfigSecretRotated'' ''True'' \<in> set
      [ErrorCall 900 901 ''KubeconfigManagement'' ''FailedToGetKubeconfig'' ''False''
         (ErrorReturns ''timeout''),
       ReadyCall 1000 1001 ''KubeconfigManagement'' ''KubeconfigSecretRotated'' ''True''] \<and>
   returns (ReadyCall 1000 1001 ''KubeconfigManagement'' ''KubeconfigSecretRotated'' ''True'') \<and>
   (\<forall>t. countType t (Conditions (Status (runCalls
      (withStatus ''Error''
         [exampleCondition ''KubeconfigManagement'' ''False'' 5 ''FailedToGetKubeconfig''])
      [ErrorCall 900 901 ''KubeconfigManagement'' ''FailedToGetKubeconfig'' ''False''
         (ErrorReturns ''timeout''),
       ReadyCall 1000 1001 ''KubeconfigManagement'' ''KubeconfigSecretRotated'' ''True'']))) \<le> 1) \<and>
   countType ''KubeconfigManagement'' (Conditions (Status (runCalls
      (withStatus ''Error''
         [exampleCondition ''KubeconfigManagement'' ''False'' 5 ''FailedToGetKubeconfig''])
      [ErrorCall 900 901 ''KubeconfigManagement'' ''FailedToGetKubeconfig'' ''False''
         (ErrorReturns ''timeout''),
       ReadyCall 1000 1001 ''KubeconfigManagement'' ''KubeconfigSecretRotated'' ''True'']))) = 1"
  using conditions_one_entry_per_type
    [of "withStatus ''Error''
           [exampleCondition ''KubeconfigManagement'' ''False'' 5 ''FailedToGetKubeconfig'']"
        "[ErrorCall 900 901 ''KubeconfigManagement'' ''FailedToGetKubeconfig'' ''False''
            (ErrorReturns ''timeout''),
          ReadyCall 1000 1001 ''KubeconfigManagement'' ''KubeconfigSecretRotated'' ''True'']"]
  by (simp add: withStatus_def exampleCondition_def exampleCluster_def countType_def)

text \<open>
  The claim as stated fails. A status that starts with two entries of a type keeps both
  when the only call is for another type; and a call with a nil error leaves no entry of
  its type behind.
\<close>

theorem untouched_duplicates_survive:
  "countType ''Other''
     (Conditions (Status (runCalls
        (withStatus ''Ready''
           [exampleCondition ''Other'' ''True'' 5 ''KubeconfigSecretCreated'',
            exampleCondition ''Other'' ''True'' 6 ''KubeconfigSecretCreated''])
        [ReadyCall 1000 1001 ''KubeconfigManagement'' ''KubeconfigSecretCreated'' ''True'']))) = 2 \<and>
   countType ''KubeconfigManagement''
     (Conditions (Status (runCalls exampleCluster
        [ErrorCall 1000 1001 ''KubeconfigManagement'' ''FailedToGetKubeconfig'' ''False''
           NilError]))) = 0"
  by (simp add: model_defs)


text \<open>
  C4, as amended. Let every call of \<open>UpdateConditionForReadyState\<close> in a sequence be made
  with the management type and one of the reasons KubeconfigSecretCreated,
  KubeconfigSecretRotated (calls of \<open>UpdateConditionForErrorState\<close> are arbitrary), and let
  the sequence hold at least one call or the initial status already have the property.
  Then in the status reached, state Ready implies that the condition of the management
  type reports KubeconfigSecretCreated or KubeconfigSecretRotated.
\<close>

theorem ready_implies_success_reason:
  "(\<forall>call \<in> set calls. disciplined call) \<Longrightarrow>
   calls \<noteq> [] \<or> (State (Status cluster) = ReadyState \<longrightarrow> readyReported cluster) \<Longrightarrow>
   State (Status (runCalls cluster calls)) = ReadyState \<longrightarrow>
     readyReported (runCalls cluster calls)"
proof (cases calls rule: rev_cases)
  case Nil
  assume "calls \<noteq> [] \<or> (State (Status cluster) = ReadyState \<longrightarrow> readyReported cluster)"
  with Nil show ?thesis by (simp add: runCalls_def)
next
  case (snoc xs x)
  assume "\<forall>call \<in> set calls. disciplined call"
  with snoc have "disciplined x" by simp
  from readyReported_applyCall [OF this, of "runCalls cluster xs"] snoc show ?thesis
    by (simp add: runCalls_snoc)
qed

text \<open>
  The theorem after a failed and then a successful reconcile: the state is Ready and the
  management condition reports the rotation.
\<close>

theorem ready_implies_success_reason_witness:
  "disciplined (ErrorCall 900 901 ''KubeconfigManagement'' ''FailedToGetKubeconfig'' ''False''
      (ErrorReturns ''timeout'')) \<and>
   disciplined (ReadyCall 1000 1001 ''KubeconfigManagement'' ''KubeconfigSecretRotated''
      ''True'') \<and>
   State (Status (runCalls exampleCluster
      [ErrorCall 900 901 ''KubeconfigManagement'' ''FailedToGetKubeconfig'' ''False''
         (ErrorReturns ''timeout''),
       ReadyCall 1000 1001 ''KubeconfigManagement'' ''KubeconfigSecretRotated'' ''True'']))
     = ReadyState \<and>
   readyReported (runCalls exampleCluster
      [ErrorCall 900 901 ''KubeconfigManagement'' ''FailedToGetKubeconfig'' ''False''
         (ErrorReturns ''timeout''),
       ReadyCall 1000 1001 ''KubeconfigManagement'' ''KubeconfigSecretRotated'' ''True''])"
  using ready_implies_success_reason
    [of "[ErrorCall 900 901 ''KubeconfigManagement'' ''FailedToGetKubeconfig'' ''False''
            (ErrorReturns ''timeout''),
          ReadyCall 1000 1001 ''KubeconfigManagement'' ''KubeconfigSecretRotated'' ''True'']"
        exampleCluster]
  by (simp add: runCalls_def Ready_state successReason_def
      ConditionTypeKubeconfigManagement_def ConditionReasonKubeconfigSecretRotated_def)

text \<open>
  The claim as stated fails with arbitrary arguments. A Ready call given a failure reason
  leaves state Ready with that reason on the management condition; a Ready call for
  another type leaves state Ready over the failure that an earlier call reported for the
  management type; and with no call at all a status can be Ready over a failed
  management condition.
\<close>

theorem ready_state_with_failure_reason:
  "State (Status (UpdateConditionForReadyState exampleCluster 1000 1001
      ConditionTypeKubeconfigManagement ConditionReasonFailedToGetKubeconfig ''False''))
     = ''Ready'' \<and>
   map Reason (filter (\<lambda>c. Type c = ''KubeconfigManagement'')
     (Conditions (Status (UpdateConditionForReadyState exampleCluster 1000 1001
        ConditionTypeKubeconfigManagement ConditionReasonFailedToGetKubeconfig ''False''))))
     = [''FailedToGetKubeconfig''] \<and>
   State (Status (runCalls exampleCluster
      [ErrorCall 900 901 ''KubeconfigManagement'' ''FailedToGetKubeconfig'' ''False''
         (ErrorReturns ''timeout''),
       ReadyCall 1000 1001 ''Other'' ''KubeconfigSecretCreated'' ''True''])) = ''Ready'' \<and>
   map Reason (filter (\<lambda>c. Type c = ''KubeconfigManagement'')
     (Conditions (Status (runCalls exampleCluster
        [ErrorCall 900 901 ''KubeconfigManagement'' ''FailedToGetKubeconfig'' ''False''
           (ErrorReturns ''timeout''),
         ReadyCall 1000 1001 ''Other'' ''KubeconfigSecretCreated'' ''True'']))))
     = [''FailedToGetKubeconfig''] \<and>
   State (Status (runCalls
      (withStatus ''Ready''
         [exampleCondition ''KubeconfigManagement'' ''False'' 5 ''FailedToGetKubeconfig''])
      [])) = ''Ready'' \<and>
   map Reason (filter (\<lambda>c. Type c = ''KubeconfigManagement'')
     (Conditions (Status (runCalls
        (withStatus ''Ready''
           [exampleCondition ''KubeconfigManagement'' ''False'' 5 ''FailedToGetKubeconfig''])
        [])))) = [''FailedToGetKubeconfig'']"
  by (simp add: model_defs)


text \<open>
  C5. When the clock does not read Go's zero instant, each of the two operations leaves
  exactly one entry of its condition type, and the transition time of that entry is the
  clock reading of the call, whatever the list held before: an earlier entry of the same
  type, with the same status or not, is removed with its transition time.
\<close>

theorem transition_time_stamped:
  "\<not> IsZero now \<Longrightarrow>
   map LastTransitionTime (filter (\<lambda>c. Type c = conditionType)
     (Conditions (Status (UpdateConditionForReadyState cluster now sysnow
        conditionType reason conditionStatus)))) = [now] \<and>
   map LastTransitionTime (filter (\<lambda>c. Type c = conditionType)
     (Conditions (Status (clusterAfter (UpdateConditionForErrorState cluster now sysnow
        conditionType reason conditionStatus (ErrorReturns e)))))) = [now]"
  by (simp add: Ready_entries Error_entries stamped_fields)

text \<open>
  The theorem at a cluster whose management condition already has status True, stamped at
  time 5: a Ready call at time 1000 with status True stores time 1000.
\<close>

theorem transition_time_stamped_witness:
  "\<not> IsZero 1000 \<and>
   map LastTransitionTime (filter (\<lambda>c. Type c = ''KubeconfigManagement'')
     (Conditions (Status
        (withStatus ''Ready''
           [exampleCondition ''KubeconfigManagement'' ''True'' 5 ''KubeconfigSecretCreated''])))) = [5] \<and>
   map LastTransitionTime (filter (\<lambda>c. Type c = ''KubeconfigManagement'')
     (Conditions (Status (UpdateConditionForReadyState
        (withStatus ''Ready''
           [exampleCondition ''KubeconfigManagement'' ''True'' 5 ''KubeconfigSecretCreated''])
        1000 1001 ''KubeconfigManagement'' ''KubeconfigSecretCreated'' ''True'')))) = [1000]"
  using transition_time_stamped [of 1000 "''KubeconfigManagement''"
      "withStatus ''Ready''
         [exampleCondition ''KubeconfigManagement'' ''True'' 5 ''KubeconfigSecretCreated'']"
      1001 "''KubeconfigSecretCreated''" "''True''" "''none''"]
  by (simp add: IsZero_def withStatus_def exampleCondition_def)

text \<open>
  C6. Every call of \<open>UpdateConditionForReadyState\<close> sets the state to Ready and every call
  of \<open>UpdateConditionForErrorState\<close> sets it to Error (also the call that panics in
  \<open>Error()\<close>, whose assignment comes first); after any call of either the state is Ready
  or Error.
\<close>

theorem state_set_by_operation:
  "State (Status (UpdateConditionForReadyState cluster now sysnow conditionType reason
      conditionStatus)) = ''Ready'' \<and>
   State (Status (clusterAfter (UpdateConditionForErrorState cluster now sysnow conditionType
      reason conditionStatus err))) = ''Error'' \<and>
   State (Status (applyCall cluster call)) \<in> {''Ready'', ''Error''}"
proof -
  have "State (Status (applyCall cluster call)) \<in> {ReadyState, ErrorState}"
    by (cases call) (simp_all add: Ready_state Error_state)
  then show ?thesis
    using Ready_state [of cluster now sysnow conditionType reason conditionStatus]
      Error_state [of cluster now sysnow conditionType reason conditionStatus err]
    by (simp add: ReadyState_def ErrorState_def)
qed

text \<open>
  C7. \<open>getMessage\<close> maps each of the six reason constants to its sentence, and
  \<open>UpdateConditionForReadyState\<close> stores exactly the sentence of its reason as the message
  of the one condition of its type.
\<close>

theorem getMessage_table:
  "getMessage ConditionReasonKubeconfigSecretCreated = ''Secret created successfully.'' \<and>
   getMessage ConditionReasonKubeconfigSecretRotated = ''Secret rotated successfully.'' \<and>
   getMessage ConditionReasonFailedToCreateSecret = ''Failed to create secret.'' \<and>
   getMessage ConditionReasonFailedToUpdateSecret = ''Failed to rotate secret.'' \<and>
   getMessage ConditionReasonFailedToGetSecret = ''Failed to get secret.'' \<and>
   getMessage ConditionReasonFailedToGetKubeconfig = ''Failed to get kubeconfig.'' \<and>
   map Message (filter (\<lambda>c. Type c = conditionType)
     (Conditions (Status (UpdateConditionForReadyState cluster now sysnow
        conditionType reason conditionStatus)))) = [getMessage reason]"
proof -
  have "getMessage ConditionReasonKubeconfigSecretCreated = ''Secret created successfully.''"
    and "getMessage ConditionReasonKubeconfigSecretRotated = ''Secret rotated successfully.''"
    and "getMessage ConditionReasonFailedToCreateSecret = ''Failed to create secret.''"
    and "getMessage ConditionReasonFailedToUpdateSecret = ''Failed to rotate secret.''"
    and "getMessage ConditionReasonFailedToGetSecret = ''Failed to get secret.''"
    and "getMessage ConditionReasonFailedToGetKubeconfig = ''Failed to get kubeconfig.''"
    by (simp_all add: getMessage_def reason_defs)
  then show ?thesis
    by (simp add: Ready_entries stamped_fields)
qed

text \<open>
  C8. Neither operation changes anything but the status: the type metadata, the object
  metadata and the spec (shoot name and secret coordinates) of the cluster are the same
  after the call, also after the call that panics.
\<close>

theorem update_frame:
  "TypeMeta (UpdateConditionForReadyState cluster now sysnow conditionType reason conditionStatus)
     = TypeMeta cluster \<and>
   ObjectMeta (UpdateConditionForReadyState cluster now sysnow conditionType reason conditionStatus)
     = ObjectMeta cluster \<and>
   Spec (UpdateConditionForReadyState cluster now sysnow conditionType reason conditionStatus)
     = Spec cluster \<and>
   TypeMeta (clusterAfter (UpdateConditionForErrorState cluster now sysnow conditionType reason
     conditionStatus err)) = TypeMeta cluster \<and>
   ObjectMeta (clusterAfter (UpdateConditionForErrorState cluster now sysnow conditionType reason
     conditionStatus err)) = ObjectMeta cluster \<and>
   Spec (clusterAfter (UpdateConditionForErrorState cluster now sysnow conditionType reason
     conditionStatus err)) = Spec cluster"
  by (cases err)
     (simp_all add: UpdateConditionForReadyState_def UpdateConditionForErrorState_def
        clusterAfter_def Let_def)

text \<open>
  C9, as amended. \<open>UpdateConditionForErrorState\<close> calls \<open>Error()\<close> on its error argument
  on every path, with no branch for an absent error. When the error is non-nil and its
  \<open>Error()\<close> returns, the operation returns. When the error is nil the call is a nil
  dereference, and when \<open>Error()\<close> itself panics the operation panics with the same value;
  in both cases the state is already Error and the condition list is untouched. The
  operation panics exactly when the \<open>Error()\<close> call does.
\<close>

theorem error_method_decides_outcome:
  "(\<exists>cluster'. UpdateConditionForErrorState cluster now sysnow conditionType reason
       conditionStatus (ErrorReturns e) = Inr cluster') \<and>
   UpdateConditionForErrorState cluster now sysnow conditionType reason conditionStatus
       NilError =
     Inl (NilPointerDereference, cluster\<lparr>Status := (Status cluster)\<lparr>State := ErrorState\<rparr>\<rparr>) \<and>
   UpdateConditionForErrorState cluster now sysnow conditionType reason conditionStatus
       (ErrorPanics p) =
     Inl (p, cluster\<lparr>Status := (Status cluster)\<lparr>State := ErrorState\<rparr>\<rparr>) \<and>
   isl (UpdateConditionForErrorState cluster now sysnow conditionType reason conditionStatus err)
     = isl (Error err)"
  by (cases err) (simp_all add: UpdateConditionForErrorState_def Let_def)

text \<open>
  The claim as stated fails: an error that is not nil does not make the operation succeed
  when its \<open>Error()\<close> panics, as the method of a typed nil pointer does. The operation
  panics with the nil dereference, the state set to Error and no condition written.
\<close>

theorem non_nil_error_can_panic:
  "ErrorPanics NilPointerDereference \<noteq> NilError \<and>
   UpdateConditionForErrorState exampleCluster 1000 1001 ''KubeconfigManagement''
       ''FailedToGetKubeconfig'' ''False'' (ErrorPanics NilPointerDereference) =
     Inl (NilPointerDereference, withStatus ''Error'' [])"
  by (simp add: model_defs)

text \<open>
  C10. \<open>getMessage\<close> is total on reason strings: a reason that is none of the six
  constants gets the text \<open>Unknown condition\<close>. Both operations succeed for every reason
  string: the Ready operation stores the message of the reason, the Error operation
  (given an error whose \<open>Error()\<close> returns) returns and stores that message followed by
  the error.
\<close>

theorem getMessage_total:
  "(reason \<notin> {ConditionReasonKubeconfigSecretCreated, ConditionReasonKubeconfigSecretRotated,
       ConditionReasonFailedToCreateSecret, ConditionReasonFailedToUpdateSecret,
       ConditionReasonFailedToGetSecret, ConditionReasonFailedToGetKubeconfig} \<longrightarrow>
     getMessage reason = ''Unknown condition'') \<and>
   map Message (filter (\<lambda>c. Type c = conditionType)
     (Conditions (Status (UpdateConditionForReadyState cluster now sysnow
        conditionType reason conditionStatus)))) = [getMessage reason] \<and>
   (\<exists>cluster'. UpdateConditionForErrorState cluster now sysnow conditionType reason
       conditionStatus (ErrorReturns e) = Inr cluster' \<and>
     map Message (filter (\<lambda>c. Type c = conditionType) (Conditions (Status cluster'))) =
       [getMessage reason @ '' Error: '' @ e])"
proof -
  have "reason \<notin> {ConditionReasonKubeconfigSecretCreated, ConditionReasonKubeconfigSecretRotated,
       ConditionReasonFailedToCreateSecret, ConditionReasonFailedToUpdateSecret,
       ConditionReasonFailedToGetSecret, ConditionReasonFailedToGetKubeconfig} \<longrightarrow>
     getMessage reason = ''Unknown condition''"
    by (simp add: getMessage_def)
  moreover have "\<exists>cluster'. UpdateConditionForErrorState cluster now sysnow conditionType reason
       conditionStatus (ErrorReturns e) = Inr cluster' \<and>
     map Message (filter (\<lambda>c. Type c = conditionType) (Conditions (Status cluster'))) =
       [getMessage reason @ '' Error: '' @ e]"
    using Error_returns [of cluster now sysnow conditionType reason conditionStatus e]
    by (intro exI [of _ "clusterAfter (UpdateConditionForErrorState cluster now sysnow
          conditionType reason conditionStatus (ErrorReturns e))"])
       (simp add: Error_entries stamped_fields)
  ultimately show ?thesis
    by (simp add: Ready_entries stamped_fields)
qed

text \<open>
  The theorem at the reason \<open>Bogus\<close>, which is none of the six constants.
\<close>

theorem getMessage_total_witness:
  "''Bogus'' \<notin> {ConditionReasonKubeconfigSecretCreated, ConditionReasonKubeconfigSecretRotated,
       ConditionReasonFailedToCreateSecret, ConditionReasonFailedToUpdateSecret,
       ConditionReasonFailedToGetSecret, ConditionReasonFailedToGetKubeconfig} \<and>
   getMessage ''Bogus'' = ''Unknown condition'' \<and>
   map Message (Conditions (Status (UpdateConditionForReadyState exampleCluster 1000 1001
     ''KubeconfigManagement'' ''Bogus'' ''True''))) = [''Unknown condition'']"
  using getMessage_total
    [of "''Bogus''" "''KubeconfigManagement''" exampleCluster 1000 1001 "''True''" "''x''"]
  by (simp add: reason_defs Ready_conditions exampleCluster_def stamped_def IsZero_def)

end
